theory Spec2Isabelle
  imports Complex_Main "HOL-Library.AList"
begin

section \<open>Values, exceptions and the Attribute Store\<close>

text \<open>
  The push channel hands the entities messages decoded from JSON, and the entities keep
  the decoded values as they are in \<open>_extra_state_attributes\<close>. A value is therefore a
  JSON tree: \<open>None\<close>, a bool, an int, a float, a str, a list or a dict with str keys.
  A dict is kept as an association list in key order; a decoded message is a tree, so
  no two places of it share a mutable object and value semantics is exact.
\<close>

subsection \<open>Floats\<close>

text \<open>
  A Python float is an IEEE 754 binary64 value: a finite double, kept as the rational
  number it stands for, an infinity (\<open>Infinity True\<close> is the positive one) or a NaN.
  The sign of a zero is left out: no comparison and no truth test tells the two zeros
  apart, and a sum or difference of two finite doubles that is zero is the positive zero.
\<close>

datatype pyfloat = Finite rat | Infinity bool | NaN

text \<open>The number of binary digits of a positive integer.\<close>

function bit_length :: "int \<Rightarrow> int" where
  "bit_length n = (if n \<le> 0 then 0 else 1 + bit_length (n div 2))"
  by pat_completeness auto
termination
  by (relation "measure nat") auto

declare bit_length.simps [simp del]

definition pow2 :: "int \<Rightarrow> rat" where
  "pow2 e = (if 0 \<le> e then 2 ^ nat e else 1 / 2 ^ nat (- e))"

text \<open>For a positive \<open>x\<close>, the exponent \<open>e\<close> with \<open>2^e \<le> x < 2^(e+1)\<close>: the bit lengths
  of numerator and denominator give it up to one.\<close>

definition ilog2 :: "rat \<Rightarrow> int" where
  "ilog2 x =
     (let d = bit_length (fst (quotient_of x)) - bit_length (snd (quotient_of x))
      in if pow2 d \<le> x then d else d - 1)"

text \<open>The nearest integer, a tie going to the even one.\<close>

definition round_half_even :: "rat \<Rightarrow> int" where
  "round_half_even x =
     (let f = \<lfloor>x\<rfloor>; r = x - of_int f
      in if r < 1 / 2 then f
         else if 1 / 2 < r then f + 1
         else if even f then f else f + 1)"

text \<open>
  Rounding a rational to the nearest double, ties to even: 53 significant bits, so the
  result is a multiple \<open>m * 2^e\<close> of the spacing \<open>2^e\<close> at the magnitude of \<open>x\<close>, which
  is never finer than \<open>2^-1074\<close> (the subnormal range). A result of \<open>2^1024\<close> or
  more in magnitude overflows to an infinity: that is the case when \<open>x\<close> itself is
  that large, and when \<open>x\<close>, at the top exponent 1023, rounds up to \<open>2^53 * 2^971\<close>.
  Every float operation below returns the exact result rounded this way, as IEEE 754
  prescribes.
\<close>

definition double_of_rat :: "rat \<Rightarrow> pyfloat" where
  "double_of_rat x =
     (if x = 0 then Finite 0
      else
        (let l = ilog2 \<bar>x\<bar> in
         if 1024 \<le> l then Infinity (0 < x)
         else
           (let e = max (l - 52) (- 1074);
                m = round_half_even (x / pow2 e)
            in if l = 1023 \<and> 2 ^ 53 \<le> \<bar>m\<bar> then Infinity (0 < x)
               else Finite (of_int m * pow2 e))))"

fun float_neg :: "pyfloat \<Rightarrow> pyfloat" where
  "float_neg (Finite x) = Finite (- x)"
| "float_neg (Infinity b) = Infinity (\<not> b)"
| "float_neg NaN = NaN"

fun float_add :: "pyfloat \<Rightarrow> pyfloat \<Rightarrow> pyfloat" where
  "float_add (Finite x) (Finite y) = double_of_rat (x + y)"
| "float_add (Finite x) (Infinity b) = Infinity b"
| "float_add (Infinity a) (Finite y) = Infinity a"
| "float_add (Infinity a) (Infinity b) = (if a = b then Infinity a else NaN)"
| "float_add NaN y = NaN"
| "float_add x NaN = NaN"

definition float_sub :: "pyfloat \<Rightarrow> pyfloat \<Rightarrow> pyfloat" where
  "float_sub x y = float_add x (float_neg y)"

fun float_abs :: "pyfloat \<Rightarrow> pyfloat" where
  "float_abs (Finite x) = Finite \<bar>x\<bar>"
| "float_abs (Infinity b) = Infinity True"
| "float_abs NaN = NaN"

text \<open>\<open>x < y\<close>: false as soon as one side is a NaN.\<close>

fun float_less :: "pyfloat \<Rightarrow> pyfloat \<Rightarrow> bool" where
  "float_less (Finite x) (Finite y) = (x < y)"
| "float_less (Finite x) (Infinity b) = b"
| "float_less (Infinity a) (Finite y) = (\<not> a)"
| "float_less (Infinity a) (Infinity b) = (\<not> a \<and> b)"
| "float_less NaN y = False"
| "float_less x NaN = False"

text \<open>A float in a condition, and \<open>x != 0\<close>: false for a zero only.\<close>

fun float_nonzero :: "pyfloat \<Rightarrow> bool" where
  "float_nonzero (Finite x) = (x \<noteq> 0)"
| "float_nonzero (Infinity b) = True"
| "float_nonzero NaN = True"

subsection \<open>Values\<close>

datatype pyval =
    PNone
  | PBool bool
  | PInt int
  | PFloat pyfloat
  | PStr string
  | PList "pyval list"
  | PDict "(string \<times> pyval) list"

type_synonym attrs = "string \<rightharpoonup> pyval"

text \<open>A number: an int, which is unbounded, or a float.\<close>

datatype pynum = NInt int | NFloat pyfloat

text \<open>The keyword arguments of \<open>async_set_temperature\<close>, each a number; \<open>kwargs.get\<close>
  gives \<open>None\<close> for an absent one.\<close>

record kwargs =
  target_temp_low :: "pynum option"
  target_temp_high :: "pynum option"
  temperature :: "pynum option"

datatype pyexc =
    KeyError string
  | TypeError
  | AttributeError string
  | NameError string
  | OverflowError
  | C4Exception string
  | OtherException string
  | UpdateFailed string kwargs pyexc

text \<open>The fields of an entity that the two platforms read and write, and a count of the
  calls of \<open>schedule_update_ha_state\<close>.\<close>

record entity =
  entity_id :: string
  attr_available :: bool
  extra_state_attributes :: attrs
  ha_state_updates :: nat

definition schedule_update_ha_state :: "entity \<Rightarrow> entity" where
  "schedule_update_ha_state s = s\<lparr>ha_state_updates := Suc (ha_state_updates s)\<rparr>"

subsection \<open>Python operators on values\<close>

text \<open>\<open>k in s\<close> for two strs: \<open>k\<close> occurs in \<open>s\<close> as a contiguous piece.\<close>

fun str_contains :: "string \<Rightarrow> string \<Rightarrow> bool" where
  "str_contains [] k = (k = [])"
| "str_contains (c # cs) k = (take (length k) (c # cs) = k \<or> str_contains cs k)"

text \<open>\<open>k in c\<close> for a str \<open>k\<close>: a key of a dict, an element of a list, a piece of a str;
  the other values are not iterable.\<close>

fun py_contains :: "pyval \<Rightarrow> string \<Rightarrow> pyexc + bool" where
  "py_contains (PDict kvs) k = Inr (map_of kvs k \<noteq> None)"
| "py_contains (PList xs) k = Inr (PStr k \<in> set xs)"
| "py_contains (PStr s) k = Inr (str_contains s k)"
| "py_contains _ k = Inl TypeError"

text \<open>\<open>c[k]\<close> for a str \<open>k\<close>: only a dict takes a str subscript.\<close>

fun py_subscript :: "pyval \<Rightarrow> string \<Rightarrow> pyexc + pyval" where
  "py_subscript (PDict kvs) k =
     (case map_of kvs k of None \<Rightarrow> Inl (KeyError k) | Some v \<Rightarrow> Inr v)"
| "py_subscript _ k = Inl TypeError"

text \<open>\<open>c.pop(k)\<close> for a str \<open>k\<close>: the value and the container without the key.\<close>

fun py_pop :: "pyval \<Rightarrow> string \<Rightarrow> pyexc + (pyval \<times> pyval)" where
  "py_pop (PDict kvs) k =
     (case map_of kvs k of None \<Rightarrow> Inl (KeyError k)
      | Some v \<Rightarrow> Inr (v, PDict (AList.delete k kvs)))"
| "py_pop (PList xs) k = Inl TypeError"
| "py_pop _ k = Inl (AttributeError ''pop'')"

text \<open>The dict \<open>c\<close> after the object under its key \<open>k\<close> has been mutated into \<open>v\<close>.\<close>

fun py_replace :: "pyval \<Rightarrow> string \<Rightarrow> pyval \<Rightarrow> pyval" where
  "py_replace (PDict kvs) k v = PDict (AList.update k v kvs)"
| "py_replace c k v = c"

text \<open>\<open>v != 0\<close>: the numbers compare by value and \<open>False == 0\<close>.\<close>

fun py_ne_zero :: "pyval \<Rightarrow> bool" where
  "py_ne_zero (PInt i) = (i \<noteq> 0)"
| "py_ne_zero (PFloat x) = float_nonzero x"
| "py_ne_zero (PBool b) = b"
| "py_ne_zero _ = True"

text \<open>The truth value of a value in a condition.\<close>

fun py_truthy :: "pyval \<Rightarrow> bool" where
  "py_truthy PNone = False"
| "py_truthy (PBool b) = b"
| "py_truthy (PInt i) = (i \<noteq> 0)"
| "py_truthy (PFloat x) = float_nonzero x"
| "py_truthy (PStr s) = (s \<noteq> [])"
| "py_truthy (PList xs) = (xs \<noteq> [])"
| "py_truthy (PDict kvs) = (kvs \<noteq> [])"

text \<open>Calling a value: none of them is callable.\<close>

definition py_call :: "pyval \<Rightarrow> pyexc + pyval" where
  "py_call v = Inl TypeError"

text \<open>The number a value stands for in arithmetic, if any (a bool is the int 0 or 1).\<close>

fun py_number :: "pyval \<Rightarrow> pynum option" where
  "py_number (PInt i) = Some (NInt i)"
| "py_number (PFloat x) = Some (NFloat x)"
| "py_number (PBool b) = Some (NInt (if b then 1 else 0))"
| "py_number _ = None"

text \<open>
  The float an operand becomes when the other operand is a float: an int is rounded to
  the nearest double, and one beyond the range of the doubles raises \<open>OverflowError\<close>.
\<close>

fun as_float :: "pynum \<Rightarrow> pyexc + pyfloat" where
  "as_float (NFloat x) = Inr x"
| "as_float (NInt i) =
     (case double_of_rat (of_int i) of
        Infinity b \<Rightarrow> Inl OverflowError
      | x \<Rightarrow> Inr x)"

text \<open>\<open>a + b\<close> and \<open>a - b\<close>: exact on two ints, float arithmetic otherwise.\<close>

fun py_add :: "pynum \<Rightarrow> pynum \<Rightarrow> pyexc + pynum" where
  "py_add (NInt i) (NInt j) = Inr (NInt (i + j))"
| "py_add a b =
     (case as_float a of
        Inl e \<Rightarrow> Inl e
      | Inr x \<Rightarrow>
          (case as_float b of
             Inl e \<Rightarrow> Inl e
           | Inr y \<Rightarrow> Inr (NFloat (float_add x y))))"

fun py_sub :: "pynum \<Rightarrow> pynum \<Rightarrow> pyexc + pynum" where
  "py_sub (NInt i) (NInt j) = Inr (NInt (i - j))"
| "py_sub a b =
     (case as_float a of
        Inl e \<Rightarrow> Inl e
      | Inr x \<Rightarrow>
          (case as_float b of
             Inl e \<Rightarrow> Inl e
           | Inr y \<Rightarrow> Inr (NFloat (float_sub x y))))"

fun py_abs :: "pynum \<Rightarrow> pynum" where
  "py_abs (NInt i) = NInt \<bar>i\<bar>"
| "py_abs (NFloat x) = NFloat (float_abs x)"

text \<open>\<open>a < b\<close>: Python compares an int with a float by their exact values.\<close>

fun exact_value :: "pynum \<Rightarrow> pyfloat" where
  "exact_value (NInt i) = Finite (of_int i)"
| "exact_value (NFloat x) = x"

definition py_less :: "pynum \<Rightarrow> pynum \<Rightarrow> bool" where
  "py_less a b = float_less (exact_value a) (exact_value b)"

fun num_truthy :: "pynum \<Rightarrow> bool" where
  "num_truthy (NInt i) = (i \<noteq> 0)"
| "num_truthy (NFloat x) = float_nonzero x"

text \<open>\<open>self._extra_state_attributes[k]\<close>.\<close>

definition attr :: "entity \<Rightarrow> string \<Rightarrow> pyexc + pyval" where
  "attr s k =
     (case extra_state_attributes s k of None \<Rightarrow> Inl (KeyError k) | Some v \<Rightarrow> Inr v)"

section \<open>climate.py\<close>

subsection \<open>Constants\<close>

text \<open>\<open>HVACMode\<close> and the fan modes are Home Assistant's.\<close>

datatype HVACMode = OFF | HEAT | COOL | HEAT_COOL | AUTO | DRY | FAN_ONLY

definition FAN_ON :: string where "FAN_ON = ''on''"
definition FAN_AUTO :: string where "FAN_AUTO = ''auto''"
definition FAN_DIFFUSE :: string where "FAN_DIFFUSE = ''diffuse''"

definition CONTROL4_HVAC_MODE_OFF :: string where "CONTROL4_HVAC_MODE_OFF = ''Off''"
definition CONTROL4_HVAC_MODE_HEAT :: string where "CONTROL4_HVAC_MODE_HEAT = ''Heat''"
definition CONTROL4_HVAC_MODE_COOL :: string where "CONTROL4_HVAC_MODE_COOL = ''Cool''"
definition CONTROL4_HVAC_MODE_HEAT_COOL :: string where
  "CONTROL4_HVAC_MODE_HEAT_COOL = ''Auto''"
definition CONTROL4_HVAC_MODE_AUX_HEAT :: string where
  "CONTROL4_HVAC_MODE_AUX_HEAT = ''Emergency Heat''"

definition CONTROL4_FAN_MODE_ON :: string where "CONTROL4_FAN_MODE_ON = ''On''"
definition CONTROL4_FAN_MODE_AUTO :: string where "CONTROL4_FAN_MODE_AUTO = ''Auto''"
definition CONTROL4_FAN_MODE_DIFFUSE :: string where
  "CONTROL4_FAN_MODE_DIFFUSE = ''Circulate''"

definition MIN_TEMP_RANGE :: int where "MIN_TEMP_RANGE = 2"

definition HVAC_MODES :: "(string \<times> HVACMode) list" where
  "HVAC_MODES =
     [(CONTROL4_HVAC_MODE_OFF, OFF),
      (CONTROL4_HVAC_MODE_HEAT, HEAT),
      (CONTROL4_HVAC_MODE_AUX_HEAT, HEAT),
      (CONTROL4_HVAC_MODE_COOL, COOL),
      (CONTROL4_HVAC_MODE_HEAT_COOL, HEAT_COOL)]"

definition CONTROL4_FAN_MODES :: "(string \<times> string) list" where
  "CONTROL4_FAN_MODES =
     [(FAN_ON, CONTROL4_FAN_MODE_ON),
      (FAN_AUTO, CONTROL4_FAN_MODE_AUTO),
      (FAN_DIFFUSE, CONTROL4_FAN_MODE_DIFFUSE)]"

subsection \<open>The Update Reducer\<close>

text \<open>One statement \<open>if k in data: self._extra_state_attributes[K] = data[k]\<close>.\<close>

definition copy_field :: "pyval \<Rightarrow> string \<times> string \<Rightarrow> attrs \<Rightarrow> pyexc + attrs" where
  "copy_field data f a =
     (case py_contains data (fst f) of
        Inl e \<Rightarrow> Inl e
      | Inr False \<Rightarrow> Inr a
      | Inr True \<Rightarrow>
          (case py_subscript data (fst f) of
             Inl e \<Rightarrow> Inl e
           | Inr v \<Rightarrow> Inr (a(snd f \<mapsto> v))))"

text \<open>The statements in a row: the first that raises ends the row and keeps what the
  earlier ones stored.\<close>

fun copy_fields :: "pyval \<Rightarrow> (string \<times> string) list \<Rightarrow> attrs \<Rightarrow> attrs \<times> pyexc option" where
  "copy_fields data [] a = (a, None)"
| "copy_fields data (f # fs) a =
     (case copy_field data f a of
        Inl e \<Rightarrow> (a, Some e)
      | Inr a' \<Rightarrow> copy_fields data fs a')"

text \<open>The payload key and the store key of each statement of
  \<open>Control4Climate._update_callback\<close>, in the order of the source.\<close>

definition climate_fields :: "(string \<times> string) list" where
  "climate_fields =
     [(''hvac_state'', ''HVAC_STATE''),
      (''humidity'', ''HUMIDITY''),
      (''setpoint_heat'', ''HEAT_SETPOINT''),
      (''setpoint_heat_f'', ''HEAT_SETPOINT_F''),
      (''setpoint_heat_c'', ''HEAT_SETPOINT_C''),
      (''setpoint_cool'', ''COOL_SETPOINT''),
      (''setpoint_cool_f'', ''COOL_SETPOINT_F''),
      (''setpoint_cool_c'', ''COOL_SETPOINT_C''),
      (''current_temperature'', ''CURRENT_TEMPERATURE''),
      (''temperature'', ''TEMPERATURE''),
      (''current_temperature_f'', ''CURRENT_TEMPERATURE_F''),
      (''current_temperature_c'', ''CURRENT_TEMPERATURE_C''),
      (''hvac_mode'', ''HVAC_MODE''),
      (''fan_mode'', ''FAN_MODE''),
      (''fan_state'', ''FAN_STATE'')]"

text \<open>
  \<open>Control4Climate._update_callback\<close>. Its last statement calls
  \<open>self._data_to_extra_state_attributes(data)\<close>, a method of the base class
  \<open>Control4Entity\<close>; the call is the parameter \<open>helper\<close>, from the store and
  the payload to the store it leaves and the exception it raises, if any.
  The result is the entity after the call and the exception that left it, if any.
\<close>

definition climate_update_callback ::
  "(attrs \<Rightarrow> pyval \<Rightarrow> attrs \<times> pyexc option) \<Rightarrow> entity \<Rightarrow> pyval \<Rightarrow> entity \<times> pyexc option"
where
  "climate_update_callback helper s message =
     (if message = PBool False then
        (schedule_update_ha_state (s\<lparr>attr_available := False\<rparr>), None)
      else
        (case py_subscript message ''evtName'' of
           Inl e \<Rightarrow> (s, Some e)
         | Inr n \<Rightarrow>
             if n = PStr ''OnDataToUI'' then
               (let s1 = s\<lparr>attr_available := True\<rparr> in
                case py_subscript message ''data'' of
                  Inl e \<Rightarrow> (s1, Some e)
                | Inr data \<Rightarrow>
                    (case copy_fields data climate_fields (extra_state_attributes s1) of
                       (a, Some e) \<Rightarrow> (s1\<lparr>extra_state_attributes := a\<rparr>, Some e)
                     | (a, None) \<Rightarrow>
                         (case helper a data of
                            (a', Some e) \<Rightarrow> (s1\<lparr>extra_state_attributes := a'\<rparr>, Some e)
                          | (a', None) \<Rightarrow>
                              (schedule_update_ha_state
                                 (s1\<lparr>extra_state_attributes := a'\<rparr>), None))))
             else (schedule_update_ha_state s, None)))"

text \<open>
  Modelled from the spec: the body of \<open>Control4Entity._data_to_extra_state_attributes\<close>
  is in the package's \<open>__init__.py\<close>, which is not among the sources. The spec gives the
  reducer no write beyond the recognized fields, every other key of the store staying as
  it was, and no failure on a data payload: the helper leaves the store as it finds it.
\<close>

definition data_to_extra_state_attributes :: "attrs \<Rightarrow> pyval \<Rightarrow> attrs \<times> pyexc option" where
  "data_to_extra_state_attributes a data = (a, None)"

subsection \<open>Reads\<close>

text \<open>\<open>v in T\<close> and \<open>T[v]\<close> for a table \<open>T\<close> with str keys: a list or a dict cannot be
  hashed, and no other value than a str equals a key.\<close>

fun table_lookup :: "(string \<times> 'a) list \<Rightarrow> pyval \<Rightarrow> pyexc + 'a option" where
  "table_lookup T (PStr k) = Inr (map_of T k)"
| "table_lookup T (PList xs) = Inl TypeError"
| "table_lookup T (PDict kvs) = Inl TypeError"
| "table_lookup T _ = Inr None"

definition hvac_mode :: "entity \<Rightarrow> pyexc + HVACMode" where
  "hvac_mode s =
     (case attr s ''HVAC_MODE'' of
        Inl e \<Rightarrow> Inl e
      | Inr v \<Rightarrow>
          if v = PStr [] then Inr OFF
          else
            (case table_lookup HVAC_MODES v of
               Inl e \<Rightarrow> Inl e
             | Inr None \<Rightarrow> Inr OFF
             | Inr (Some m) \<Rightarrow> Inr m))"

text \<open>The reads return a value of the store or \<open>None\<close>, here \<open>PNone\<close>.\<close>

definition target_temperature :: "entity \<Rightarrow> pyexc + pyval" where
  "target_temperature s =
     (case hvac_mode s of
        Inl e \<Rightarrow> Inl e
      | Inr m \<Rightarrow>
          (case (if m = HEAT then extra_state_attributes s ''HEAT_SETPOINT_F'' else None) of
             Some v \<Rightarrow> Inr v
           | None \<Rightarrow>
               (case (if m = COOL then extra_state_attributes s ''COOL_SETPOINT_F'' else None) of
                  Some v \<Rightarrow> Inr v
                | None \<Rightarrow> Inr PNone)))"

definition target_temperature_high :: "entity \<Rightarrow> pyexc + pyval" where
  "target_temperature_high s =
     (case hvac_mode s of
        Inl e \<Rightarrow> Inl e
      | Inr m \<Rightarrow> if m \<noteq> HEAT_COOL then Inr PNone else attr s ''COOL_SETPOINT_F'')"

definition target_temperature_low :: "entity \<Rightarrow> pyexc + pyval" where
  "target_temperature_low s =
     (case hvac_mode s of
        Inl e \<Rightarrow> Inl e
      | Inr m \<Rightarrow> if m \<noteq> HEAT_COOL then Inr PNone else attr s ''HEAT_SETPOINT_F'')"

definition current_temperature :: "entity \<Rightarrow> pyexc + pyval" where
  "current_temperature s = attr s ''TEMPERATURE_F''"

subsection \<open>Commands\<close>

text \<open>
  The calls a command method makes on the hub object, the records it hands to
  \<open>_LOGGER.exception\<close> (the format and the argument expressions) and the exception that
  leaves it, if any. The hub is a function from a call to the exception it raises, if any.
\<close>

datatype command =
    SetHvacMode string
  | SetFanMode string
  | SetHeatSetpoint pynum
  | SetCoolSetpoint pynum
  | SetSpeed pyval
  | SetPreset pyval

record outcome =
  sent :: "command list"
  logged :: "(string \<times> string list) list"
  raised :: "pyexc option"

type_synonym hub = "command \<Rightarrow> pyexc option"

definition returns :: outcome where
  "returns = \<lparr>sent = [], logged = [], raised = None\<rparr>"

definition raises :: "pyexc \<Rightarrow> outcome" where
  "raises e = \<lparr>sent = [], logged = [], raised = Some e\<rparr>"

definition call_hub :: "hub \<Rightarrow> command \<Rightarrow> outcome" where
  "call_hub h c = \<lparr>sent = [c], logged = [], raised = h c\<rparr>"

definition log_exception :: "string \<Rightarrow> string list \<Rightarrow> outcome" where
  "log_exception fmt args = \<lparr>sent = [], logged = [(fmt, args)], raised = None\<rparr>"

text \<open>Two statements in a row: the second runs if the first raised nothing.\<close>

definition and_then :: "outcome \<Rightarrow> outcome \<Rightarrow> outcome" where
  "and_then a b =
     (if raised a = None
      then \<lparr>sent = sent a @ sent b, logged = logged a @ logged b, raised = raised b\<rparr>
      else a)"

text \<open>
  The names that the module \<open>climate.py\<close> binds at its top level: its imports (the import
  of \<open>C4Exception\<close> is commented out), its assignments, its function and its class.
\<close>

definition climate_globals :: "string list" where
  "climate_globals =
     [''annotations'', ''logging'', ''Any'', ''C4Climate'',
      ''ATTR_TARGET_TEMP_HIGH'', ''ATTR_TARGET_TEMP_LOW'', ''FAN_AUTO'', ''FAN_DIFFUSE'',
      ''FAN_ON'', ''ClimateEntity'', ''ClimateEntityDescription'', ''ClimateEntityFeature'',
      ''HVACAction'', ''HVACMode'',
      ''ATTR_TEMPERATURE'', ''UnitOfTemperature'', ''PRECISION_HALVES'', ''PRECISION_WHOLE'',
      ''CONF_SCAN_INTERVAL'',
      ''ConfigEntry'', ''HomeAssistant'', ''AddEntitiesCallback'', ''DataUpdateCoordinator'',
      ''UpdateFailed'', ''percentage_to_ranged_value'', ''ranged_value_to_percentage'',
      ''Control4Entity'', ''get_items_of_category'',
      ''CONF_DIRECTOR'', ''CONTROL4_ENTITY_TYPE'', ''DOMAIN'',
      ''director_get_entry_variables'',
      ''_LOGGER'', ''CONTROL4_CATEGORY'', ''CONTROL4_PROXY'',
      ''CONTROL4_HVAC_MODE_OFF'', ''CONTROL4_HVAC_MODE_HEAT'', ''CONTROL4_HVAC_MODE_COOL'',
      ''CONTROL4_HVAC_MODE_HEAT_COOL'', ''CONTROL4_HVAC_MODE_AUX_HEAT'',
      ''CONTROL4_FAN_MODE_ON'', ''CONTROL4_FAN_MODE_AUTO'', ''CONTROL4_FAN_MODE_DIFFUSE'',
      ''MIN_TEMP_RANGE'', ''CONTROL4_HVAC_MODES'', ''HVAC_MODES'', ''CONTROL4_FAN_MODES'',
      ''FAN_MODES'', ''async_setup_entry'', ''Control4Climate'']"

text \<open>A name in a method resolves to a local of the method or to a name of the module;
  Python's builtins hold neither of the two names that are looked up below.\<close>

definition name_bound :: "string list \<Rightarrow> string \<Rightarrow> bool" where
  "name_bound locals n = (n \<in> set locals \<or> n \<in> set climate_globals)"

text \<open>
  \<open>Control4Climate.async_set_fan_mode\<close>. The \<open>else\<close> branch evaluates the name
  \<open>hvac_mode\<close> as the argument of \<open>_LOGGER.exception\<close>, before the call.
\<close>

definition async_set_fan_mode :: "hub \<Rightarrow> entity \<Rightarrow> string \<Rightarrow> outcome" where
  "async_set_fan_mode h s fan_mode =
     (case map_of CONTROL4_FAN_MODES fan_mode of
        Some c4_mode \<Rightarrow> call_hub h (SetFanMode c4_mode)
      | None \<Rightarrow>
          if name_bound [''self'', ''fan_mode'', ''c4_climate''] ''hvac_mode''
          then log_exception ''Request for unsupported hvac mode received:: %s'' [''hvac_mode'']
          else raises (NameError ''hvac_mode''))"

text \<open>An argument of \<open>async_set_temperature\<close> in a condition: absent and zero are false.\<close>

fun supplied :: "pynum option \<Rightarrow> bool" where
  "supplied None = False"
| "supplied (Some t) = num_truthy t"

definition set_setpoints :: "hub \<Rightarrow> pynum \<Rightarrow> pynum \<Rightarrow> outcome" where
  "set_setpoints h low_temp high_temp =
     and_then (call_hub h (SetHeatSetpoint low_temp)) (call_hub h (SetCoolSetpoint high_temp))"

text \<open>
  The body of the \<open>try\<close> statement of \<open>async_set_temperature\<close>. The arithmetic is
  Python's: \<open>high_temp - low_temp\<close>, \<open>high_temp - self.target_temperature_high\<close>,
  \<open>low_temp + MIN_TEMP_RANGE\<close> and \<open>high_temp - MIN_TEMP_RANGE\<close> are rounded to
  doubles when an operand is a float, and \<open>0.01\<close> is the double nearest to 1/100.
\<close>

definition set_temperature_body :: "hub \<Rightarrow> entity \<Rightarrow> kwargs \<Rightarrow> outcome" where
  "set_temperature_body h s kw =
     (case hvac_mode s of
        Inl e \<Rightarrow> raises e
      | Inr m \<Rightarrow>
          if m = HEAT_COOL then
            (if supplied (target_temp_low kw) \<and> supplied (target_temp_high kw) then
               (case (target_temp_low kw, target_temp_high kw) of
                  (Some low_temp, Some high_temp) \<Rightarrow>
                    (case py_sub high_temp low_temp of
                       Inl e \<Rightarrow> raises e
                     | Inr gap \<Rightarrow>
                         if py_less gap (NInt MIN_TEMP_RANGE) then
                           (case target_temperature_high s of
                              Inl e \<Rightarrow> raises e
                            | Inr v \<Rightarrow>
                                (case py_number v of
                                   None \<Rightarrow> raises TypeError
                                 | Some previous \<Rightarrow>
                                     (case py_sub high_temp previous of
                                        Inl e \<Rightarrow> raises e
                                      | Inr d \<Rightarrow>
                                          if py_less (py_abs d) (NFloat (double_of_rat (1 / 100)))
                                          then
                                            (case py_add low_temp (NInt MIN_TEMP_RANGE) of
                                               Inl e \<Rightarrow> raises e
                                             | Inr raised_high \<Rightarrow>
                                                 set_setpoints h low_temp raised_high)
                                          else
                                            (case py_sub high_temp (NInt MIN_TEMP_RANGE) of
                                               Inl e \<Rightarrow> raises e
                                             | Inr lowered_low \<Rightarrow>
                                                 set_setpoints h lowered_low high_temp))))
                         else set_setpoints h low_temp high_temp)
                | _ \<Rightarrow> returns)
             else returns)
          else if m = COOL \<and> supplied (temperature kw) then
            (case temperature kw of
               Some temp \<Rightarrow> call_hub h (SetCoolSetpoint temp) | None \<Rightarrow> returns)
          else if m = HEAT \<and> supplied (temperature kw) then
            (case temperature kw of
               Some temp \<Rightarrow> call_hub h (SetHeatSetpoint temp) | None \<Rightarrow> returns)
          else returns)"

text \<open>
  The clause \<open>except C4Exception as err: raise UpdateFailed(...) from err\<close> for an
  exception \<open>e\<close> that leaves the body: Python evaluates the name \<open>C4Exception\<close> first,
  then matches \<open>e\<close> against the class.
\<close>

definition except_C4Exception :: "entity \<Rightarrow> kwargs \<Rightarrow> pyexc \<Rightarrow> pyexc" where
  "except_C4Exception s kw e =
     (if name_bound
           [''self'', ''kwargs'', ''c4_climate'', ''low_temp'', ''high_temp'', ''temp'']
           ''C4Exception''
      then (case e of C4Exception msg \<Rightarrow> UpdateFailed (entity_id s) kw e | _ \<Rightarrow> e)
      else NameError ''C4Exception'')"

definition async_set_temperature :: "hub \<Rightarrow> entity \<Rightarrow> kwargs \<Rightarrow> outcome" where
  "async_set_temperature h s kw =
     (let r = set_temperature_body h s kw in
      case raised r of
        None \<Rightarrow> r
      | Some e \<Rightarrow> r\<lparr>raised := Some (except_C4Exception s kw e)\<rparr>)"

section \<open>fan.py\<close>

text \<open>
  One block of \<open>Control4Fan._update_callback\<close>:
  \<^verbatim>\<open>if outer in data:
    d = data[outer]
    if inner in d:
        v = d.pop(inner)
        self._extra_state_attributes[K] = v\<close>
  The result is the store and the payload after the block; \<open>pop\<close> is the last step that
  can raise, so a block that raises has changed neither.
\<close>

definition pop_field ::
  "string \<Rightarrow> string \<Rightarrow> string \<Rightarrow> attrs \<times> pyval \<Rightarrow> pyexc + (attrs \<times> pyval)"
where
  "pop_field outer inner K ad =
     (case py_contains (snd ad) outer of
        Inl e \<Rightarrow> Inl e
      | Inr False \<Rightarrow> Inr ad
      | Inr True \<Rightarrow>
          (case py_subscript (snd ad) outer of
             Inl e \<Rightarrow> Inl e
           | Inr d \<Rightarrow>
               (case py_contains d inner of
                  Inl e \<Rightarrow> Inl e
                | Inr False \<Rightarrow> Inr ad
                | Inr True \<Rightarrow>
                    (case py_pop d inner of
                       Inl e \<Rightarrow> Inl e
                     | Inr (v, d') \<Rightarrow>
                         Inr ((fst ad)(K \<mapsto> v), py_replace (snd ad) outer d')))))"

text \<open>
  \<open>Control4Fan._update_callback\<close>. The callback pops the fields out of the message it
  is given, so the result carries the message as the call leaves it, besides the entity
  and the exception, if any.
\<close>

definition fan_update_callback :: "entity \<Rightarrow> pyval \<Rightarrow> entity \<times> pyval \<times> pyexc option" where
  "fan_update_callback s message =
     (if message = PBool False then
        (schedule_update_ha_state (s\<lparr>attr_available := False\<rparr>), message, None)
      else
        (case py_subscript message ''evtName'' of
           Inl e \<Rightarrow> (s, message, Some e)
         | Inr n \<Rightarrow>
             if n = PStr ''OnDataToUI'' then
               (let s1 = s\<lparr>attr_available := True\<rparr> in
                case py_subscript message ''data'' of
                  Inl e \<Rightarrow> (s1, message, Some e)
                | Inr data \<Rightarrow>
                    (case pop_field ''fan_state'' ''current_speed'' ''CURRENT_SPEED''
                            (extra_state_attributes s1, data) of
                       Inl e \<Rightarrow> (s1, message, Some e)
                     | Inr (a1, data1) \<Rightarrow>
                         (case pop_field ''fan_setup'' ''preset_speed'' ''PRESET_SPEED''
                                 (a1, data1) of
                            Inl e \<Rightarrow>
                              (s1\<lparr>extra_state_attributes := a1\<rparr>,
                               py_replace message ''data'' data1, Some e)
                          | Inr (a2, data2) \<Rightarrow>
                              (schedule_update_ha_state
                                 (s1\<lparr>extra_state_attributes := a2\<rparr>),
                               py_replace message ''data'' data2, None))))
             else (schedule_update_ha_state s, message, None)))"

subsection \<open>Reads and commands\<close>

text \<open>The property \<open>is_on\<close>.\<close>

definition is_on :: "entity \<Rightarrow> pyexc + pyval" where
  "is_on s =
     (case attr s ''CURRENT_SPEED'' of
        Inl e \<Rightarrow> Inl e
      | Inr v \<Rightarrow> Inr (PBool (py_ne_zero v)))"

definition async_turn_on :: "hub \<Rightarrow> entity \<Rightarrow> outcome" where
  "async_turn_on h s =
     (case attr s ''PRESET_SPEED'' of
        Inl e \<Rightarrow> raises e
      | Inr v \<Rightarrow>
          if py_ne_zero v then call_hub h (SetSpeed v)
          else call_hub h (SetSpeed (PInt 1)))"

definition async_turn_off :: "hub \<Rightarrow> entity \<Rightarrow> outcome" where
  "async_turn_off h s = call_hub h (SetSpeed (PInt 0))"

text \<open>\<open>async_toggle\<close> evaluates \<open>self.is_on()\<close>: the property's value, then a call of
  that value.\<close>

definition async_toggle :: "hub \<Rightarrow> entity \<Rightarrow> outcome" where
  "async_toggle h s =
     (case is_on s of
        Inl e \<Rightarrow> raises e
      | Inr b \<Rightarrow>
          (case py_call b of
             Inl e \<Rightarrow> raises e
           | Inr r \<Rightarrow> if py_truthy r then async_turn_off h s else async_turn_on h s))"

subsection \<open>A notion for the proofs\<close>

text \<open>A block of the fan reducer finds nothing to pop in the payload \<open>d\<close>: the outer
  key is not in it, or the inner key is not in what the outer key holds.\<close>

definition nothing_to_pop :: "string \<Rightarrow> string \<Rightarrow> pyval \<Rightarrow> bool" where
  "nothing_to_pop outer inner d =
     (case py_contains d outer of
        Inl e \<Rightarrow> False
      | Inr False \<Rightarrow> True
      | Inr True \<Rightarrow>
          (case py_subscript d outer of
             Inl e \<Rightarrow> False
           | Inr x \<Rightarrow> py_contains x inner = Inr False))"

section \<open>Lemmas\<close>

subsection \<open>The fan reducer applied twice\<close>

lemma py_pop_removes:
  "py_pop x k = Inr (v, x') \<Longrightarrow> py_contains x' k = Inr False"
  by (cases x) (auto simp: delete_conv' split: option.splits)

lemma pop_field_settles:
  "pop_field outer inner K (a, d) = Inr (a', d') \<Longrightarrow> nothing_to_pop outer inner d'"
  by (cases d)
     (auto simp: pop_field_def nothing_to_pop_def update_conv' dest: py_pop_removes
           split: sum.splits bool.splits option.splits if_splits)

lemma nothing_to_pop_skip:
  "nothing_to_pop outer inner d \<Longrightarrow> pop_field outer inner K (b, d) = Inr (b, d)"
  by (auto simp: pop_field_def nothing_to_pop_def split: sum.splits bool.splits)

lemma pop_field_keeps_other:
  "outer' \<noteq> outer \<Longrightarrow> pop_field outer inner K (a, d) = Inr (a', d') \<Longrightarrow>
   nothing_to_pop outer' inner' d \<Longrightarrow> nothing_to_pop outer' inner' d'"
  by (cases d)
     (auto simp: pop_field_def nothing_to_pop_def update_conv' delete_conv'
           split: sum.splits bool.splits option.splits pyval.splits if_splits)

lemma replaced_message:
  assumes "py_subscript m ''evtName'' = Inr n" and "py_subscript m ''data'' = Inr d"
  shows "py_replace m ''data'' d' \<noteq> PBool False"
    and "py_subscript (py_replace m ''data'' d') ''evtName'' = Inr n"
    and "py_subscript (py_replace m ''data'' d') ''data'' = Inr d'"
  using assms by (cases m; simp add: update_conv' split: option.splits)+

lemma fan_twice:
  "extra_state_attributes
     (fst (fan_update_callback (fst (fan_update_callback s m))
             (fst (snd (fan_update_callback s m)))))
   = extra_state_attributes (fst (fan_update_callback s m))"
proof (cases "m = PBool False")
  case True
  then show ?thesis
    by (simp add: fan_update_callback_def schedule_update_ha_state_def)
next
  case no_disconnect: False
  show ?thesis
  proof (cases "py_subscript m ''evtName''")
    case (Inl e)
    with no_disconnect show ?thesis
      by (simp add: fan_update_callback_def)
  next
    case name: (Inr n)
    show ?thesis
    proof (cases "n = PStr ''OnDataToUI''")
      case False
      with no_disconnect name show ?thesis
        by (simp add: fan_update_callback_def schedule_update_ha_state_def)
    next
      case envelope: True
      show ?thesis
      proof (cases "py_subscript m ''data''")
        case (Inl e)
        with no_disconnect name envelope show ?thesis
          by (simp add: fan_update_callback_def)
      next
        case data: (Inr d)
        let ?a = "extra_state_attributes s"
        show ?thesis
        proof (cases "pop_field ''fan_state'' ''current_speed'' ''CURRENT_SPEED'' (?a, d)")
          case (Inl e)
          with no_disconnect name envelope data show ?thesis
            by (simp add: fan_update_callback_def)
        next
          case (Inr r1)
          then obtain a1 d1 where
            first: "pop_field ''fan_state'' ''current_speed'' ''CURRENT_SPEED'' (?a, d) = Inr (a1, d1)"
            by (cases r1) auto
          have again1: "pop_field ''fan_state'' ''current_speed'' ''CURRENT_SPEED'' (b, d1) = Inr (b, d1)"
            for b
            using pop_field_settles [OF first] by (rule nothing_to_pop_skip)
          show ?thesis
          proof (cases "pop_field ''fan_setup'' ''preset_speed'' ''PRESET_SPEED'' (a1, d1)")
            case (Inl e)
            with no_disconnect name envelope data first again1 [of a1]
              replaced_message [OF name data, of d1]
            show ?thesis
              by (simp add: fan_update_callback_def)
          next
            case (Inr r2)
            then obtain a2 d2 where
              second: "pop_field ''fan_setup'' ''preset_speed'' ''PRESET_SPEED'' (a1, d1) = Inr (a2, d2)"
              by (cases r2) auto
            have "nothing_to_pop ''fan_state'' ''current_speed'' d2"
              using pop_field_keeps_other [OF _ second pop_field_settles [OF first]] by simp
            then have again1': "pop_field ''fan_state'' ''current_speed'' ''CURRENT_SPEED'' (a2, d2) = Inr (a2, d2)"
              by (rule nothing_to_pop_skip)
            have again2: "pop_field ''fan_setup'' ''preset_speed'' ''PRESET_SPEED'' (a2, d2) = Inr (a2, d2)"
              using pop_field_settles [OF second] by (rule nothing_to_pop_skip)
            from no_disconnect name envelope data first second again1' again2
              replaced_message [OF name data, of d2]
            show ?thesis
              by (simp add: fan_update_callback_def schedule_update_ha_state_def)
          qed
        qed
      qed
    qed
  qed
qed

lemma map_add_twice: "(a ++ w) ++ w = a ++ (w :: 'k \<rightharpoonup> 'v)"
  by (rule ext) (simp add: map_add_def split: option.splits)

lemma map_add_twice2: "((a ++ w) ++ g) ++ w ++ g = (a ++ w) ++ (g :: 'k \<rightharpoonup> 'v)"
  by (rule ext) (simp add: map_add_def split: option.splits)

lemma pop_field_raise_any_store:
  "pop_field outer inner K (a, d) = Inl e \<Longrightarrow> pop_field outer inner K (b, d) = Inl e"
  by (auto simp: pop_field_def split: sum.splits bool.splits prod.splits)

lemma pop_field_writes:
  assumes "pop_field outer inner K (a, d) = Inr (a', d')"
  shows "\<exists>w. a' = a ++ w \<and> (\<forall>b. pop_field outer inner K (b, d) = Inr (b ++ w, d'))"
proof (cases "nothing_to_pop outer inner d")
  case True
  from nothing_to_pop_skip [OF True] assms have "a' = a ++ Map.empty" "d' = d"
    by simp_all
  with nothing_to_pop_skip [OF True] show ?thesis
    by (intro exI [of _ Map.empty]) simp
next
  case False
  with assms obtain v where
    "\<forall>b. pop_field outer inner K (b, d) = Inr (b(K \<mapsto> v), d')"
    by (auto simp: pop_field_def nothing_to_pop_def split: sum.splits bool.splits prod.splits)
  with assms show ?thesis
    by (intro exI [of _ "[K \<mapsto> v]"]) simp
qed

lemma fan_same_message_twice:
  "extra_state_attributes (fst (fan_update_callback (fst (fan_update_callback s m)) m))
   = extra_state_attributes (fst (fan_update_callback s m))"
proof (cases "m = PBool False")
  case True
  then show ?thesis
    by (simp add: fan_update_callback_def schedule_update_ha_state_def)
next
  case no_disconnect: False
  show ?thesis
  proof (cases "py_subscript m ''evtName''")
    case (Inl e)
    with no_disconnect show ?thesis
      by (simp add: fan_update_callback_def)
  next
    case name: (Inr n)
    show ?thesis
    proof (cases "n = PStr ''OnDataToUI''")
      case False
      with no_disconnect name show ?thesis
        by (simp add: fan_update_callback_def schedule_update_ha_state_def)
    next
      case envelope: True
      show ?thesis
      proof (cases "py_subscript m ''data''")
        case (Inl e)
        with no_disconnect name envelope show ?thesis
          by (simp add: fan_update_callback_def)
      next
        case data: (Inr d)
        let ?a = "extra_state_attributes s"
        show ?thesis
        proof (cases "pop_field ''fan_state'' ''current_speed'' ''CURRENT_SPEED'' (?a, d)")
          case (Inl e)
          with no_disconnect name envelope data show ?thesis
            by (simp add: fan_update_callback_def)
        next
          case (Inr r1)
          then obtain a1 d1 where
            first: "pop_field ''fan_state'' ''current_speed'' ''CURRENT_SPEED'' (?a, d) = Inr (a1, d1)"
            by (cases r1) auto
          from pop_field_writes [OF first] obtain w1 where
            a1: "a1 = ?a ++ w1" and
            any1: "\<And>b. pop_field ''fan_state'' ''current_speed'' ''CURRENT_SPEED'' (b, d) = Inr (b ++ w1, d1)"
            by blast
          show ?thesis
          proof (cases "pop_field ''fan_setup'' ''preset_speed'' ''PRESET_SPEED'' (a1, d1)")
            case (Inl e)
            from pop_field_raise_any_store [OF Inl]
            have "pop_field ''fan_setup'' ''preset_speed'' ''PRESET_SPEED'' (a1 ++ w1, d1) = Inl e" .
            with no_disconnect name envelope data first Inl any1 [of a1] a1
            show ?thesis
              by (simp add: fan_update_callback_def map_add_twice)
          next
            case (Inr r2)
            then obtain a2 d2 where
              second: "pop_field ''fan_setup'' ''preset_speed'' ''PRESET_SPEED'' (a1, d1) = Inr (a2, d2)"
              by (cases r2) auto
            from pop_field_writes [OF second] obtain w2 where
              a2: "a2 = a1 ++ w2" and
              any2: "\<And>b. pop_field ''fan_setup'' ''preset_speed'' ''PRESET_SPEED'' (b, d1) = Inr (b ++ w2, d2)"
              by blast
            from no_disconnect name envelope data first second any1 [of a2] any2 [of "a2 ++ w1"] a1 a2
            show ?thesis
              by (simp add: fan_update_callback_def schedule_update_ha_state_def map_add_twice2)
          qed
        qed
      qed
    qed
  qed
qed

subsection \<open>The climate reducer applied twice, and the keys it writes\<close>

lemma copy_field_raise_any_store:
  "copy_field data f Map.empty = Inl e \<Longrightarrow> copy_field data f a = Inl e"
  by (auto simp: copy_field_def split: sum.splits bool.splits)

lemma copy_field_writes:
  "copy_field data f Map.empty = Inr w \<Longrightarrow> copy_field data f a = Inr (a ++ w)"
  by (auto simp: copy_field_def split: sum.splits bool.splits)

lemma copy_fields_writes:
  "\<exists>w e. \<forall>a. copy_fields data fs a = (a ++ w, e)"
proof (induction fs)
  case Nil
  show ?case by (intro exI [of _ Map.empty]) simp
next
  case (Cons f fs)
  then obtain w e where rest: "\<And>a. copy_fields data fs a = (a ++ w, e)"
    by blast
  show ?case
  proof (cases "copy_field data f Map.empty")
    case (Inl x)
    have "\<forall>a. copy_fields data (f # fs) a = (a ++ Map.empty, Some x)"
      using copy_field_raise_any_store [OF Inl] by simp
    then show ?thesis by blast
  next
    case (Inr w0)
    have "\<forall>a. copy_fields data (f # fs) a = (a ++ (w0 ++ w), e)"
      using copy_field_writes [OF Inr] rest by simp
    then show ?thesis by blast
  qed
qed

lemma climate_twice:
  assumes helper: "\<And>a d. fst (helper a d) = a ++ g d"
  shows "extra_state_attributes
           (fst (climate_update_callback helper (fst (climate_update_callback helper s m)) m))
         = extra_state_attributes (fst (climate_update_callback helper s m))"
proof (cases "m = PBool False")
  case True
  then show ?thesis
    by (simp add: climate_update_callback_def schedule_update_ha_state_def)
next
  case no_disconnect: False
  show ?thesis
  proof (cases "py_subscript m ''evtName''")
    case (Inl e)
    with no_disconnect show ?thesis
      by (simp add: climate_update_callback_def)
  next
    case name: (Inr n)
    show ?thesis
    proof (cases "n = PStr ''OnDataToUI''")
      case False
      with no_disconnect name show ?thesis
        by (simp add: climate_update_callback_def schedule_update_ha_state_def)
    next
      case envelope: True
      show ?thesis
      proof (cases "py_subscript m ''data''")
        case (Inl e)
        with no_disconnect name envelope show ?thesis
          by (simp add: climate_update_callback_def)
      next
        case data: (Inr d)
        from copy_fields_writes obtain w e where
          copied: "\<And>a. copy_fields d climate_fields a = (a ++ w, e)"
          by blast
        show ?thesis
        proof (cases e)
          case (Some x)
          with no_disconnect name envelope data copied show ?thesis
            by (simp add: climate_update_callback_def map_add_twice)
        next
          case None
          have stored: "extra_state_attributes (fst (climate_update_callback helper t m))
                        = (extra_state_attributes t ++ w) ++ g d" for t
          proof -
            obtain a' e' where h: "helper (extra_state_attributes t ++ w) d = (a', e')"
              by (cases "helper (extra_state_attributes t ++ w) d")
            with helper [of "extra_state_attributes t ++ w" d]
            have "a' = (extra_state_attributes t ++ w) ++ g d" by simp
            with h no_disconnect name envelope data copied None show ?thesis
              by (cases e')
                 (simp_all add: climate_update_callback_def schedule_update_ha_state_def)
          qed
          show ?thesis
            by (simp only: stored map_add_twice2)
        qed
      qed
    qed
  qed
qed

lemma copy_field_keeps:
  "copy_field data f a = Inr a' \<Longrightarrow> snd f \<noteq> K \<Longrightarrow> a' K = a K"
  by (auto simp: copy_field_def split: sum.splits bool.splits)

lemma copy_fields_keeps:
  "list_all (\<lambda>f. snd f \<noteq> K) fs \<Longrightarrow> copy_fields data fs a = (a', e) \<Longrightarrow> a' K = a K"
  by (induction fs arbitrary: a) (auto split: sum.splits dest: copy_field_keeps)

lemma climate_fields_no_TEMPERATURE_F:
  "list_all (\<lambda>f. snd f \<noteq> ''TEMPERATURE_F'') climate_fields"
  by (simp add: climate_fields_def)

lemma climate_keeps_TEMPERATURE_F_absent:
  assumes helper: "\<And>a d. a ''TEMPERATURE_F'' = None \<Longrightarrow> fst (helper a d) ''TEMPERATURE_F'' = None"
    and absent: "extra_state_attributes s ''TEMPERATURE_F'' = None"
  shows "extra_state_attributes (fst (climate_update_callback helper s m)) ''TEMPERATURE_F'' = None"
proof -
  have copied: "a' ''TEMPERATURE_F'' = None"
    if "copy_fields d climate_fields (extra_state_attributes s) = (a', e)" for d a' e
    using copy_fields_keeps [OF climate_fields_no_TEMPERATURE_F that] absent by simp
  have helped: "a' ''TEMPERATURE_F'' = None"
    if "helper a d = (a', e)" "a ''TEMPERATURE_F'' = None" for a d a' e
    using helper [of a d] that by simp
  show ?thesis
    using absent
    by (auto simp: climate_update_callback_def schedule_update_ha_state_def Let_def
             split: sum.splits prod.splits option.splits dest: copied helped)
qed

text \<open>
  What the reducer itself does to the key \<open>TEMPERATURE_F\<close>, which the
  \<open>current_temperature\<close> read looks up: none of its fifteen statements writes it. Whether
  a sequence of messages ever stores the key is then up to the base-class helper alone.
\<close>

lemma reducer_writes_no_TEMPERATURE_F:
  assumes "\<And>a d. a ''TEMPERATURE_F'' = None \<Longrightarrow> fst (helper a d) ''TEMPERATURE_F'' = None"
    and "extra_state_attributes s ''TEMPERATURE_F'' = None"
  shows "current_temperature
           (foldl (\<lambda>t m. fst (climate_update_callback helper t m)) s messages)
         = Inl (KeyError ''TEMPERATURE_F'')"
proof -
  have "extra_state_attributes
           (foldl (\<lambda>t m. fst (climate_update_callback helper t m)) s messages) ''TEMPERATURE_F''
         = None"
    using assms(2)
  proof (induction messages arbitrary: s)
    case Nil
    then show ?case by simp
  next
    case (Cons m ms)
    from climate_keeps_TEMPERATURE_F_absent [of helper s m, OF assms(1) Cons.prems]
    show ?case by (simp add: Cons.IH)
  qed
  then show ?thesis
    by (simp add: current_temperature_def attr_def)
qed

text \<open>A helper that stores the payload's \<open>temperature_f\<close> under the key in upper case,
  for one, does write it: the read then returns the value.\<close>

lemma helper_may_write_TEMPERATURE_F:
  "current_temperature
     (fst (climate_update_callback
        (\<lambda>a d. (case py_subscript d ''temperature_f'' of
                   Inl e \<Rightarrow> a | Inr v \<Rightarrow> a(''TEMPERATURE_F'' \<mapsto> v), None))
        \<lparr>entity_id = ''climate.hall'', attr_available = True,
         extra_state_attributes = [''HVAC_MODE'' \<mapsto> PStr ''Heat''], ha_state_updates = 0\<rparr>
        (PDict [(''evtName'', PStr ''OnDataToUI''),
                (''data'', PDict [(''temperature_f'', PInt 71)])])))
   = Inr (PInt 71)"
  by (simp add: climate_update_callback_def climate_fields_def copy_field_def
      schedule_update_ha_state_def current_temperature_def attr_def)

subsection \<open>Constants, names and commands\<close>

lemmas control4_constants =
  CONTROL4_HVAC_MODE_OFF_def CONTROL4_HVAC_MODE_HEAT_def CONTROL4_HVAC_MODE_COOL_def
  CONTROL4_HVAC_MODE_HEAT_COOL_def CONTROL4_HVAC_MODE_AUX_HEAT_def
  CONTROL4_FAN_MODE_ON_def CONTROL4_FAN_MODE_AUTO_def CONTROL4_FAN_MODE_DIFFUSE_def
  FAN_ON_def FAN_AUTO_def FAN_DIFFUSE_def MIN_TEMP_RANGE_def
  HVAC_MODES_def CONTROL4_FAN_MODES_def

lemmas outcome_defs =
  returns_def raises_def call_hub_def log_exception_def and_then_def set_setpoints_def

lemma subscript_no_disconnect: "py_subscript m k = Inr v \<Longrightarrow> m \<noteq> PBool False"
  by (cases m) auto

lemma name_C4Exception_unbound:
  "\<not> name_bound [''self'', ''kwargs'', ''c4_climate'', ''low_temp'', ''high_temp'', ''temp'']
        ''C4Exception''"
  by (simp add: name_bound_def climate_globals_def)

lemma set_temperature_raises_only_NameError:
  "raised (async_set_temperature h s kw) = None
   \<or> raised (async_set_temperature h s kw) = Some (NameError ''C4Exception'')"
  by (simp add: async_set_temperature_def except_C4Exception_def name_C4Exception_unbound
      Let_def split: option.splits)

lemma double_hundredth:
  "double_of_rat (1 / 100) = Finite (5764607523034235 / 576460752303423488)"
  by code_simp

text \<open>The arithmetic of \<open>async_set_temperature\<close> at low 59.01, high 60.01 and previous
  high 60.0, each the nearest double: \<open>60.01 - 60.0\<close> is a double below \<open>0.01\<close>, so the
  low is held and the high sent is the double \<open>59.01 + 2\<close>.\<close>

lemma set_temperature_rounds_as_doubles:
  "sent (async_set_temperature (\<lambda>c. None)
        \<lparr>entity_id = ''climate.hall'', attr_available = True,
         extra_state_attributes =
           [''HVAC_MODE'' \<mapsto> PStr ''Auto'', ''COOL_SETPOINT_F'' \<mapsto> PFloat (Finite 60)],
         ha_state_updates = 0\<rparr>
        \<lparr>target_temp_low = Some (NFloat (Finite (8304919187847905 / 140737488355328))),
         target_temp_high = Some (NFloat (Finite (8445656676203233 / 140737488355328))),
         temperature = None\<rparr>)
   = [SetHeatSetpoint (NFloat (Finite (8304919187847905 / 140737488355328))),
      SetCoolSetpoint (NFloat (Finite (8586394164558561 / 140737488355328)))]"
proof -
  let ?low = "NFloat (Finite (8304919187847905 / 140737488355328))"
  let ?high = "NFloat (Finite (8445656676203233 / 140737488355328))"
  have gap: "py_sub ?high ?low = Inr (NFloat (Finite 1))"
    by code_simp
  have d: "py_sub ?high (NFloat (Finite 60))
           = Inr (NFloat (Finite (1407374883553 / 140737488355328)))"
    by code_simp
  have up: "py_add ?low (NInt 2) = Inr (NFloat (Finite (8586394164558561 / 140737488355328)))"
    by code_simp
  show ?thesis
    by (simp add: async_set_temperature_def set_temperature_body_def hvac_mode_def attr_def
      target_temperature_high_def control4_constants outcome_defs py_less_def
      gap d up double_hundredth del: py_sub.simps py_add.simps)
qed

lemma toggle_always_raises:
  "sent (async_toggle h s) = [] \<and> raised (async_toggle h s) \<noteq> None"
  by (simp add: async_toggle_def is_on_def py_call_def raises_def attr_def
      split: sum.splits option.splits)

section \<open>Properties\<close>

text \<open>
  C1, as amended. A push message that is not the disconnect value and whose envelope
  name is not \<open>"OnDataToUI"\<close>, a message with no envelope name among them, leaves the
  Attribute Store and the availability flag of a climate or a fan entity as they were
  (and the fan's message too). The only exception that the call can raise is the one of
  \<open>message["evtName"]\<close>: none when the message carries an envelope name.
\<close>

theorem other_envelope_ignored:
  assumes "message \<noteq> PBool False"
    and "py_subscript message ''evtName'' \<noteq> Inr (PStr ''OnDataToUI'')"
  shows "extra_state_attributes (fst (climate_update_callback helper s message))
           = extra_state_attributes s
       \<and> attr_available (fst (climate_update_callback helper s message)) = attr_available s
       \<and> snd (climate_update_callback helper s message)
           = (case py_subscript message ''evtName'' of Inl e \<Rightarrow> Some e | Inr n \<Rightarrow> None)
       \<and> extra_state_attributes (fst (fan_update_callback s message))
           = extra_state_attributes s
       \<and> attr_available (fst (fan_update_callback s message)) = attr_available s
       \<and> snd (fan_update_callback s message)
           = (message, case py_subscript message ''evtName'' of Inl e \<Rightarrow> Some e | Inr n \<Rightarrow> None)"
  using assms
  by (auto simp: climate_update_callback_def fan_update_callback_def
      schedule_update_ha_state_def split: sum.splits)

text \<open>The amended C1 at a message with the envelope name \<open>"OnSystemUpdate"\<close> and at a
  message with no envelope name.\<close>

theorem other_envelope_ignored_witness:
  "PDict [(''evtName'', PStr ''OnSystemUpdate''), (''data'', PDict [(''humidity'', PInt 40)])]
     \<noteq> PBool False
   \<and> py_subscript
        (PDict [(''evtName'', PStr ''OnSystemUpdate''), (''data'', PDict [(''humidity'', PInt 40)])])
        ''evtName'' = Inr (PStr ''OnSystemUpdate'')
   \<and> climate_update_callback data_to_extra_state_attributes
        \<lparr>entity_id = ''climate.hall'', attr_available = True,
         extra_state_attributes = [''HUMIDITY'' \<mapsto> PInt 35], ha_state_updates = 0\<rparr>
        (PDict [(''evtName'', PStr ''OnSystemUpdate''), (''data'', PDict [(''humidity'', PInt 40)])])
     = (\<lparr>entity_id = ''climate.hall'', attr_available = True,
         extra_state_attributes = [''HUMIDITY'' \<mapsto> PInt 35], ha_state_updates = 1\<rparr>, None)
   \<and> PDict [(''data'', PDict [(''humidity'', PInt 40)])] \<noteq> PBool False
   \<and> py_subscript (PDict [(''data'', PDict [(''humidity'', PInt 40)])]) ''evtName''
     = Inl (KeyError ''evtName'')
   \<and> fan_update_callback
        \<lparr>entity_id = ''fan.hall'', attr_available = True,
         extra_state_attributes = [''CURRENT_SPEED'' \<mapsto> PInt 2], ha_state_updates = 0\<rparr>
        (PDict [(''data'', PDict [(''humidity'', PInt 40)])])
     = (\<lparr>entity_id = ''fan.hall'', attr_available = True,
         extra_state_attributes = [''CURRENT_SPEED'' \<mapsto> PInt 2], ha_state_updates = 0\<rparr>,
        PDict [(''data'', PDict [(''humidity'', PInt 40)])],
        Some (KeyError ''evtName''))"
proof -
  let ?named = "PDict [(''evtName'', PStr ''OnSystemUpdate''),
                      (''data'', PDict [(''humidity'', PInt 40)])]"
  let ?nameless = "PDict [(''data'', PDict [(''humidity'', PInt 40)])]"
  let ?climate = "\<lparr>entity_id = ''climate.hall'', attr_available = True,
         extra_state_attributes = [''HUMIDITY'' \<mapsto> PInt 35], ha_state_updates = 0\<rparr>"
  let ?fan = "\<lparr>entity_id = ''fan.hall'', attr_available = True,
         extra_state_attributes = [''CURRENT_SPEED'' \<mapsto> PInt 2], ha_state_updates = 0\<rparr>"
  have counted: "ha_state_updates
          (fst (climate_update_callback data_to_extra_state_attributes ?climate ?named)) = 1"
    and kept: "entity_id
          (fst (climate_update_callback data_to_extra_state_attributes ?climate ?named))
          = ''climate.hall''"
    by (simp_all add: climate_update_callback_def schedule_update_ha_state_def)
  have fan: "fst (fan_update_callback ?fan ?nameless) = ?fan"
    by (simp add: fan_update_callback_def)
  from other_envelope_ignored [of ?named data_to_extra_state_attributes ?climate]
    other_envelope_ignored [of ?nameless data_to_extra_state_attributes ?fan]
    counted kept fan
  show ?thesis
    by (auto simp: prod_eq_iff)
qed

text \<open>
  C1 as stated fails for a message with no envelope name: both reducers evaluate
  \<open>message["evtName"]\<close>, which raises \<open>KeyError\<close> on a mapping without that key.
\<close>

theorem missing_envelope_name_raises:
  "PDict [(''data'', PDict [(''humidity'', PInt 40)])] \<noteq> PBool False
   \<and> py_contains (PDict [(''data'', PDict [(''humidity'', PInt 40)])]) ''evtName'' = Inr False
   \<and> snd (climate_update_callback data_to_extra_state_attributes
        \<lparr>entity_id = ''climate.hall'', attr_available = True,
         extra_state_attributes = [''HUMIDITY'' \<mapsto> PInt 35], ha_state_updates = 0\<rparr>
        (PDict [(''data'', PDict [(''humidity'', PInt 40)])]))
       = Some (KeyError ''evtName'')
   \<and> snd (snd (fan_update_callback
        \<lparr>entity_id = ''fan.hall'', attr_available = True,
         extra_state_attributes = [''CURRENT_SPEED'' \<mapsto> PInt 2], ha_state_updates = 0\<rparr>
        (PDict [(''data'', PDict [(''humidity'', PInt 40)])])))
       = Some (KeyError ''evtName'')"
  by (simp add: climate_update_callback_def fan_update_callback_def)




text \<open>
  C3 fails on the code. The hub raises a \<open>C4Exception\<close> on \<open>setCoolSetpoint(72.0)\<close>;
  the \<open>except\<close> clause names \<open>C4Exception\<close>, which the module does not bind, so the
  caller gets \<open>NameError\<close> and no \<open>UpdateFailed\<close>.
\<close>

theorem hub_failure_raises_NameError:
  "async_set_temperature (\<lambda>c. Some (C4Exception ''Director unreachable''))
     \<lparr>entity_id = ''climate.hall'', attr_available = True,
      extra_state_attributes = [''HVAC_MODE'' \<mapsto> PStr ''Cool'', ''COOL_SETPOINT_F'' \<mapsto> PInt 74],
      ha_state_updates = 0\<rparr>
     \<lparr>target_temp_low = None, target_temp_high = None, temperature = Some (NFloat (Finite 72))\<rparr>
   = \<lparr>sent = [SetCoolSetpoint (NFloat (Finite 72))], logged = [],
      raised = Some (NameError ''C4Exception'')\<rparr>"
  by (simp add: async_set_temperature_def set_temperature_body_def hvac_mode_def attr_def
      control4_constants outcome_defs except_C4Exception_def name_C4Exception_unbound)

text \<open>
  C4. In a state whose \<open>hvac_mode\<close> read returns the mode \<open>m\<close>:
  \<open>target_temperature\<close> returns \<open>None\<close> when \<open>m\<close> is neither HEAT nor COOL; a value
  other than \<open>None\<close> that it returns is the store's \<open>HEAT_SETPOINT_F\<close> under HEAT or
  its \<open>COOL_SETPOINT_F\<close> under COOL; it never raises; and \<open>target_temperature_high\<close>
  and \<open>target_temperature_low\<close> return \<open>None\<close> when \<open>m\<close> is not HEAT_COOL.
\<close>

theorem target_temperature_by_mode:
  assumes "hvac_mode s = Inr m"
  shows "(m \<noteq> HEAT \<and> m \<noteq> COOL \<longrightarrow> target_temperature s = Inr PNone)
       \<and> (\<forall>v. target_temperature s = Inr v \<and> v \<noteq> PNone \<longrightarrow>
              (m = HEAT \<and> extra_state_attributes s ''HEAT_SETPOINT_F'' = Some v)
            \<or> (m = COOL \<and> extra_state_attributes s ''COOL_SETPOINT_F'' = Some v))
       \<and> (\<exists>v. target_temperature s = Inr v)
       \<and> (m \<noteq> HEAT_COOL \<longrightarrow>
            target_temperature_high s = Inr PNone \<and> target_temperature_low s = Inr PNone)"
  using assms
  by (auto simp: target_temperature_def target_temperature_high_def target_temperature_low_def
      split: option.splits if_splits)

text \<open>C4 at a thermostat in mode \<open>"Heat"\<close> with heat setpoint 70, and at the same
  thermostat in mode \<open>"Auto"\<close>.\<close>

theorem target_temperature_by_mode_witness:
  "hvac_mode \<lparr>entity_id = ''climate.hall'', attr_available = True,
        extra_state_attributes = [''HVAC_MODE'' \<mapsto> PStr ''Heat'', ''HEAT_SETPOINT_F'' \<mapsto> PInt 70,
          ''COOL_SETPOINT_F'' \<mapsto> PInt 76],
        ha_state_updates = 0\<rparr> = Inr HEAT
   \<and> target_temperature \<lparr>entity_id = ''climate.hall'', attr_available = True,
        extra_state_attributes = [''HVAC_MODE'' \<mapsto> PStr ''Heat'', ''HEAT_SETPOINT_F'' \<mapsto> PInt 70,
          ''COOL_SETPOINT_F'' \<mapsto> PInt 76],
        ha_state_updates = 0\<rparr> = Inr (PInt 70)
   \<and> target_temperature_high \<lparr>entity_id = ''climate.hall'', attr_available = True,
        extra_state_attributes = [''HVAC_MODE'' \<mapsto> PStr ''Heat'', ''HEAT_SETPOINT_F'' \<mapsto> PInt 70,
          ''COOL_SETPOINT_F'' \<mapsto> PInt 76],
        ha_state_updates = 0\<rparr> = Inr PNone
   \<and> target_temperature_low \<lparr>entity_id = ''climate.hall'', attr_available = True,
        extra_state_attributes = [''HVAC_MODE'' \<mapsto> PStr ''Heat'', ''HEAT_SETPOINT_F'' \<mapsto> PInt 70,
          ''COOL_SETPOINT_F'' \<mapsto> PInt 76],
        ha_state_updates = 0\<rparr> = Inr PNone
   \<and> hvac_mode \<lparr>entity_id = ''climate.hall'', attr_available = True,
        extra_state_attributes = [''HVAC_MODE'' \<mapsto> PStr ''Auto'', ''HEAT_SETPOINT_F'' \<mapsto> PInt 70,
          ''COOL_SETPOINT_F'' \<mapsto> PInt 76],
        ha_state_updates = 0\<rparr> = Inr HEAT_COOL
   \<and> target_temperature \<lparr>entity_id = ''climate.hall'', attr_available = True,
        extra_state_attributes = [''HVAC_MODE'' \<mapsto> PStr ''Auto'', ''HEAT_SETPOINT_F'' \<mapsto> PInt 70,
          ''COOL_SETPOINT_F'' \<mapsto> PInt 76],
        ha_state_updates = 0\<rparr> = Inr PNone"
proof -
  let ?heat = "\<lparr>entity_id = ''climate.hall'', attr_available = True,
        extra_state_attributes = [''HVAC_MODE'' \<mapsto> PStr ''Heat'', ''HEAT_SETPOINT_F'' \<mapsto> PInt 70,
          ''COOL_SETPOINT_F'' \<mapsto> PInt 76],
        ha_state_updates = 0\<rparr>"
  let ?auto = "\<lparr>entity_id = ''climate.hall'', attr_available = True,
        extra_state_attributes = [''HVAC_MODE'' \<mapsto> PStr ''Auto'', ''HEAT_SETPOINT_F'' \<mapsto> PInt 70,
          ''COOL_SETPOINT_F'' \<mapsto> PInt 76],
        ha_state_updates = 0\<rparr>"
  have heat: "hvac_mode ?heat = Inr HEAT"
    by (simp add: hvac_mode_def attr_def control4_constants)
  have auto: "hvac_mode ?auto = Inr HEAT_COOL"
    by (simp add: hvac_mode_def attr_def control4_constants)
  have "target_temperature ?heat = Inr (PInt 70)"
    by (simp add: target_temperature_def heat)
  with target_temperature_by_mode [OF heat] target_temperature_by_mode [OF auto] heat auto
  show ?thesis by simp
qed

text \<open>
  C5. When the store holds the string \<open>raw\<close> under \<open>HVAC_MODE\<close>, the \<open>hvac_mode\<close> read
  returns OFF if \<open>raw\<close> is empty or no key of \<open>HVAC_MODES\<close>, and the table's mode
  otherwise; \<open>"Heat"\<close> and \<open>"Emergency Heat"\<close> both map to HEAT.
\<close>

theorem hvac_mode_of_raw_string:
  assumes "extra_state_attributes s ''HVAC_MODE'' = Some (PStr raw)"
  shows "(raw = [] \<or> map_of HVAC_MODES raw = None \<longrightarrow> hvac_mode s = Inr OFF)
       \<and> (\<forall>m. raw \<noteq> [] \<and> map_of HVAC_MODES raw = Some m \<longrightarrow> hvac_mode s = Inr m)
       \<and> map_of HVAC_MODES ''Heat'' = Some HEAT
       \<and> map_of HVAC_MODES ''Emergency Heat'' = Some HEAT"
  using assms
  by (auto simp: hvac_mode_def attr_def control4_constants)

text \<open>C5 at the raw strings \<open>"Emergency Heat"\<close>, \<open>"Heat"\<close>, the empty string and
  \<open>"Fan Only"\<close>.\<close>

theorem hvac_mode_of_raw_string_witness:
  "hvac_mode \<lparr>entity_id = ''climate.hall'', attr_available = True,
        extra_state_attributes = [''HVAC_MODE'' \<mapsto> PStr ''Emergency Heat''],
        ha_state_updates = 0\<rparr> = Inr HEAT
   \<and> hvac_mode \<lparr>entity_id = ''climate.hall'', attr_available = True,
        extra_state_attributes = [''HVAC_MODE'' \<mapsto> PStr ''Heat''],
        ha_state_updates = 0\<rparr> = Inr HEAT
   \<and> hvac_mode \<lparr>entity_id = ''climate.hall'', attr_available = True,
        extra_state_attributes = [''HVAC_MODE'' \<mapsto> PStr []],
        ha_state_updates = 0\<rparr> = Inr OFF
   \<and> map_of HVAC_MODES ''Fan Only'' = None
   \<and> hvac_mode \<lparr>entity_id = ''climate.hall'', attr_available = True,
        extra_state_attributes = [''HVAC_MODE'' \<mapsto> PStr ''Fan Only''],
        ha_state_updates = 0\<rparr> = Inr OFF"
  using
    hvac_mode_of_raw_string [of "\<lparr>entity_id = ''climate.hall'', attr_available = True,
        extra_state_attributes = [''HVAC_MODE'' \<mapsto> PStr ''Emergency Heat''],
        ha_state_updates = 0\<rparr>" "''Emergency Heat''"]
    hvac_mode_of_raw_string [of "\<lparr>entity_id = ''climate.hall'', attr_available = True,
        extra_state_attributes = [''HVAC_MODE'' \<mapsto> PStr ''Heat''],
        ha_state_updates = 0\<rparr>" "''Heat''"]
    hvac_mode_of_raw_string [of "\<lparr>entity_id = ''climate.hall'', attr_available = True,
        extra_state_attributes = [''HVAC_MODE'' \<mapsto> PStr []],
        ha_state_updates = 0\<rparr>" "[]"]
    hvac_mode_of_raw_string [of "\<lparr>entity_id = ''climate.hall'', attr_available = True,
        extra_state_attributes = [''HVAC_MODE'' \<mapsto> PStr ''Fan Only''],
        ha_state_updates = 0\<rparr>" "''Fan Only''"]
  by (simp add: control4_constants)

text \<open>
  C6. A disconnect message, the value \<open>False\<close>, turns the availability flag of a
  climate or a fan entity off and leaves every key and value of its Attribute Store
  (and, for the fan, the message) as it was; no exception is raised.
\<close>

theorem disconnect_keeps_store:
  "attr_available (fst (climate_update_callback helper s (PBool False))) = False
   \<and> extra_state_attributes (fst (climate_update_callback helper s (PBool False)))
       = extra_state_attributes s
   \<and> snd (climate_update_callback helper s (PBool False)) = None
   \<and> attr_available (fst (fan_update_callback s (PBool False))) = False
   \<and> extra_state_attributes (fst (fan_update_callback s (PBool False)))
       = extra_state_attributes s
   \<and> snd (fan_update_callback s (PBool False)) = (PBool False, None)"
  by (simp add: climate_update_callback_def fan_update_callback_def
      schedule_update_ha_state_def)

text \<open>
  C7 fails on the code. For the fan mode \<open>"low"\<close>, which \<open>CONTROL4_FAN_MODES\<close> does not
  hold, \<open>async_set_fan_mode\<close> calls nothing on the hub, but it logs nothing either and
  raises \<open>NameError\<close>: the argument of the log call is the name \<open>hvac_mode\<close>, which
  neither the method nor the module binds.
\<close>

theorem untranslatable_fan_mode_raises_NameError:
  "map_of CONTROL4_FAN_MODES ''low'' = None
   \<and> async_set_fan_mode h s ''low''
       = \<lparr>sent = [], logged = [], raised = Some (NameError ''hvac_mode'')\<rparr>"
  by (simp add: async_set_fan_mode_def control4_constants outcome_defs name_bound_def
      climate_globals_def)

text \<open>
  C8 fails on the code. For a fan that is on (current speed 2, preset 3),
  \<open>async_toggle\<close> calls nothing on the hub and raises \<open>TypeError\<close>: \<open>is_on\<close> is a
  property, and \<open>self.is_on()\<close> calls the bool it returns.
\<close>

theorem toggle_raises_TypeError:
  "is_on \<lparr>entity_id = ''fan.hall'', attr_available = True,
      extra_state_attributes = [''CURRENT_SPEED'' \<mapsto> PInt 2, ''PRESET_SPEED'' \<mapsto> PInt 3],
      ha_state_updates = 0\<rparr> = Inr (PBool True)
   \<and> async_toggle h
     \<lparr>entity_id = ''fan.hall'', attr_available = True,
      extra_state_attributes = [''CURRENT_SPEED'' \<mapsto> PInt 2, ''PRESET_SPEED'' \<mapsto> PInt 3],
      ha_state_updates = 0\<rparr>
   = \<lparr>sent = [], logged = [], raised = Some TypeError\<rparr>"
  by (simp add: async_toggle_def is_on_def py_call_def raises_def attr_def)

text \<open>
  C9. Applying a reducer to a message twice leaves the same Attribute Store as applying
  it once: for the climate reducer, with any base-class helper whose effect on the store
  is to add writes that the payload alone determines (\<open>g\<close>); for the fan reducer, both
  when the second call gets the message as the first call left it, with the fields
  popped, and when it gets the message as it was.
\<close>

theorem reducers_idempotent:
  assumes "\<And>a d. fst (helper a d) = a ++ g d"
  shows "extra_state_attributes
           (fst (climate_update_callback helper (fst (climate_update_callback helper s m)) m))
         = extra_state_attributes (fst (climate_update_callback helper s m))
       \<and> extra_state_attributes
           (fst (fan_update_callback (fst (fan_update_callback s m))
                   (fst (snd (fan_update_callback s m)))))
         = extra_state_attributes (fst (fan_update_callback s m))
       \<and> extra_state_attributes (fst (fan_update_callback (fst (fan_update_callback s m)) m))
         = extra_state_attributes (fst (fan_update_callback s m))"
  using climate_twice [of helper g s m, OF assms] fan_twice [of s m]
    fan_same_message_twice [of s m]
  by simp

text \<open>C9 with the helper modelled from the spec, at a thermostat that receives mode
  \<open>"Heat"\<close> and heat setpoint 70 and at a fan that receives the current speed 3.\<close>

theorem reducers_idempotent_witness:
  "(\<forall>a d. fst (data_to_extra_state_attributes a d) = a ++ Map.empty)
   \<and> extra_state_attributes
       (fst (climate_update_callback data_to_extra_state_attributes
          (fst (climate_update_callback data_to_extra_state_attributes
             \<lparr>entity_id = ''climate.hall'', attr_available = False,
              extra_state_attributes = [''HVAC_MODE'' \<mapsto> PStr ''Off''], ha_state_updates = 0\<rparr>
             (PDict [(''evtName'', PStr ''OnDataToUI''),
                     (''data'', PDict [(''hvac_mode'', PStr ''Heat''),
                                       (''setpoint_heat_f'', PInt 70)])])))
          (PDict [(''evtName'', PStr ''OnDataToUI''),
                  (''data'', PDict [(''hvac_mode'', PStr ''Heat''),
                                    (''setpoint_heat_f'', PInt 70)])])))
     = extra_state_attributes
         (fst (climate_update_callback data_to_extra_state_attributes
            \<lparr>entity_id = ''climate.hall'', attr_available = False,
             extra_state_attributes = [''HVAC_MODE'' \<mapsto> PStr ''Off''], ha_state_updates = 0\<rparr>
            (PDict [(''evtName'', PStr ''OnDataToUI''),
                    (''data'', PDict [(''hvac_mode'', PStr ''Heat''),
                                      (''setpoint_heat_f'', PInt 70)])])))
   \<and> extra_state_attributes
         (fst (climate_update_callback data_to_extra_state_attributes
            \<lparr>entity_id = ''climate.hall'', attr_available = False,
             extra_state_attributes = [''HVAC_MODE'' \<mapsto> PStr ''Off''], ha_state_updates = 0\<rparr>
            (PDict [(''evtName'', PStr ''OnDataToUI''),
                    (''data'', PDict [(''hvac_mode'', PStr ''Heat''),
                                      (''setpoint_heat_f'', PInt 70)])]))) ''HVAC_MODE''
     = Some (PStr ''Heat'')
   \<and> fan_update_callback
        \<lparr>entity_id = ''fan.hall'', attr_available = False,
         extra_state_attributes = [''CURRENT_SPEED'' \<mapsto> PInt 0], ha_state_updates = 0\<rparr>
        (PDict [(''evtName'', PStr ''OnDataToUI''),
                (''data'', PDict [(''fan_state'', PDict [(''current_speed'', PInt 3)])])])
     = (\<lparr>entity_id = ''fan.hall'', attr_available = True,
         extra_state_attributes = [''CURRENT_SPEED'' \<mapsto> PInt 3], ha_state_updates = 1\<rparr>,
        PDict [(''evtName'', PStr ''OnDataToUI''),
               (''data'', PDict [(''fan_state'', PDict [])])],
        None)
   \<and> extra_state_attributes
       (fst (fan_update_callback
          \<lparr>entity_id = ''fan.hall'', attr_available = True,
           extra_state_attributes = [''CURRENT_SPEED'' \<mapsto> PInt 3], ha_state_updates = 1\<rparr>
          (PDict [(''evtName'', PStr ''OnDataToUI''),
                  (''data'', PDict [(''fan_state'', PDict [])])])))
     = [''CURRENT_SPEED'' \<mapsto> PInt 3]"
proof -
  let ?cs = "\<lparr>entity_id = ''climate.hall'', attr_available = False,
              extra_state_attributes = [''HVAC_MODE'' \<mapsto> PStr ''Off''], ha_state_updates = 0\<rparr>"
  let ?cm = "PDict [(''evtName'', PStr ''OnDataToUI''),
                     (''data'', PDict [(''hvac_mode'', PStr ''Heat''),
                                       (''setpoint_heat_f'', PInt 70)])]"
  let ?fs = "\<lparr>entity_id = ''fan.hall'', attr_available = False,
         extra_state_attributes = [''CURRENT_SPEED'' \<mapsto> PInt 0], ha_state_updates = 0\<rparr>"
  let ?fm = "PDict [(''evtName'', PStr ''OnDataToUI''),
                (''data'', PDict [(''fan_state'', PDict [(''current_speed'', PInt 3)])])]"
  have helper: "fst (data_to_extra_state_attributes a d) = a ++ (\<lambda>d. Map.empty) d" for a d
    by (simp add: data_to_extra_state_attributes_def)
  have once: "fan_update_callback ?fs ?fm
     = (\<lparr>entity_id = ''fan.hall'', attr_available = True,
         extra_state_attributes = [''CURRENT_SPEED'' \<mapsto> PInt 3], ha_state_updates = 1\<rparr>,
        PDict [(''evtName'', PStr ''OnDataToUI''),
               (''data'', PDict [(''fan_state'', PDict [])])],
        None)"
    by (simp add: fan_update_callback_def pop_field_def schedule_update_ha_state_def)
  have stored: "extra_state_attributes
         (fst (climate_update_callback data_to_extra_state_attributes ?cs ?cm)) ''HVAC_MODE''
     = Some (PStr ''Heat'')"
    by (simp add: climate_update_callback_def climate_fields_def copy_field_def
        data_to_extra_state_attributes_def schedule_update_ha_state_def)
  from reducers_idempotent [of data_to_extra_state_attributes "\<lambda>d. Map.empty" ?cs ?cm, OF helper]
    reducers_idempotent [of data_to_extra_state_attributes "\<lambda>d. Map.empty" ?fs ?fm, OF helper]
    once stored helper
  show ?thesis by simp
qed

end
